theory Spec2Isabelle
  imports Complex_Main "HOL-Library.Multiset"
begin

section \<open>Python strings, restricted to ASCII\<close>

text \<open>
  Names are Python \<open>str\<close> values. The model works on \<^typ>\<open>string\<close> and follows
  Python on ASCII text: the cased characters are the 26 letters, \<open>\w\<close> is a letter, a
  digit or the underscore, and white space is what \<open>str.isspace\<close> accepts below code
  point 128. Characters outside ASCII are carried through unchanged.
\<close>

definition upper_chars :: string where
  "upper_chars = ''ABCDEFGHIJKLMNOPQRSTUVWXYZ''"

definition lower_chars :: string where
  "lower_chars = ''abcdefghijklmnopqrstuvwxyz''"

definition digit_chars :: string where
  "digit_chars = ''0123456789''"

definition space_chars :: string where
  "space_chars = [CHR 0x09, CHR 0x0A, CHR 0x0B, CHR 0x0C, CHR 0x0D,
                  CHR 0x1C, CHR 0x1D, CHR 0x1E, CHR 0x1F, CHR '' '']"

definition is_cased :: "char \<Rightarrow> bool" where
  "is_cased c = (c \<in> set upper_chars \<or> c \<in> set lower_chars)"

definition is_word :: "char \<Rightarrow> bool" where
  "is_word c = (is_cased c \<or> c \<in> set digit_chars \<or> c = CHR ''_'')"

definition is_space :: "char \<Rightarrow> bool" where
  "is_space c = (c \<in> set space_chars)"

definition to_lower :: "char \<Rightarrow> char" where
  "to_lower c = (case map_of (zip upper_chars lower_chars) c of Some d \<Rightarrow> d | None \<Rightarrow> c)"

definition to_upper :: "char \<Rightarrow> char" where
  "to_upper c = (case map_of (zip lower_chars upper_chars) c of Some d \<Rightarrow> d | None \<Rightarrow> c)"

text \<open>\<open>s.lower()\<close>\<close>

definition lower :: "string \<Rightarrow> string" where
  "lower s = map to_lower s"

text \<open>
  \<open>s.title()\<close>: a character that follows a cased character is lower-cased, any other
  character is title-cased (upper-cased, on ASCII).
\<close>

fun title_from :: "bool \<Rightarrow> string \<Rightarrow> string" where
  "title_from prev [] = []"
| "title_from prev (c # cs) =
     (if prev then to_lower c else to_upper c) # title_from (is_cased c) cs"

definition title :: "string \<Rightarrow> string" where
  "title s = title_from False s"

text \<open>\<open>s.strip()\<close>\<close>

definition strip :: "string \<Rightarrow> string" where
  "strip s = rev (dropWhile is_space (rev (dropWhile is_space s)))"

text \<open>\<open>s.split(sep)\<close> for a one-character separator: always at least one part.\<close>

fun split_on :: "char \<Rightarrow> string \<Rightarrow> string list" where
  "split_on sep [] = [[]]"
| "split_on sep (c # cs) =
     (if c = sep then [] # split_on sep cs
      else (case split_on sep cs of
              [] \<Rightarrow> [[c]]
            | p # ps \<Rightarrow> (c # p) # ps))"

text \<open>\<open>sep.join(parts)\<close>\<close>

fun join :: "string \<Rightarrow> string list \<Rightarrow> string" where
  "join sep [] = []"
| "join sep [p] = p"
| "join sep (p # q # ps) = p @ sep @ join sep (q # ps)"

text \<open>\<open>sub in s\<close>\<close>

fun contains :: "string \<Rightarrow> string \<Rightarrow> bool" where
  "contains sub [] = (sub = [])"
| "contains sub (c # cs) = (take (length sub) (c # cs) = sub \<or> contains sub cs)"

text \<open>
  \<open>re.sub(r'\bW\b', '', s)\<close> for a literal word \<open>W\<close> that starts and ends with a word
  character. The scan goes left to right over the original string: a match starts where
  the previous character is not a word character (or at the start), the text reads \<open>W\<close>,
  and the character after it is not a word character (or the end). \<open>skip\<close> counts the
  characters of a match still to be dropped.
\<close>

fun sub_word_from :: "string \<Rightarrow> bool \<Rightarrow> nat \<Rightarrow> string \<Rightarrow> string" where
  "sub_word_from w prev skip [] = []"
| "sub_word_from w prev skip (c # cs) =
     (if 0 < skip then sub_word_from w (is_word c) (skip - 1) cs
      else if \<not> prev \<and> w \<noteq> [] \<and> take (length w) (c # cs) = w
              \<and> (case drop (length w) (c # cs) of [] \<Rightarrow> True | d # _ \<Rightarrow> \<not> is_word d)
      then sub_word_from w (is_word c) (length w - 1) cs
      else c # sub_word_from w (is_word c) 0 cs)"

definition sub_word :: "string \<Rightarrow> string \<Rightarrow> string" where
  "sub_word w s = sub_word_from w False 0 s"

text \<open>\<open>re.sub(r'\s+', ' ', s)\<close>: every maximal run of white space becomes one space.\<close>

fun collapse_from :: "bool \<Rightarrow> string \<Rightarrow> string" where
  "collapse_from in_run [] = []"
| "collapse_from in_run (c # cs) =
     (if is_space c then
        (if in_run then collapse_from True cs else CHR '' '' # collapse_from True cs)
      else c # collapse_from False cs)"

definition collapse_spaces :: "string \<Rightarrow> string" where
  "collapse_spaces s = collapse_from False s"

section \<open>The name standardizer (\<open>process_election_data.py\<close>)\<close>

text \<open>The dictionaries are association lists in insertion order, as Python iterates them.\<close>

definition specific_cases :: "(string \<times> string) list" where
  "specific_cases =
    [(''Go, Bong Go'', ''Bong Go''),
     (''Bong Revilla, Ramon, Jr.'', ''Ramon Bong Revilla Jr.''),
     (''Bong Revilla'', ''Ramon Bong Revilla Jr.''),
     (''Pacquiao, Manny Pacman'', ''Manny Pacquiao''),
     (''Tolentino, Francis Tol'', ''Francis Tolentino''),
     (''Salvador, Phillip Ipe'', ''Phillip Salvador''),
     (''Revillame, Willie Wil'', ''Willie Revillame''),
     (''Tulfo, Ben Bitag'', ''Ben Tulfo''),
     (''Bosita, Colonel'', ''Bonifacio Bosita''),
     (''Rodriguez, Atty. Vic'', ''Vic Rodriguez'')]"

definition name_mapping :: "(string \<times> string) list" where
  "name_mapping =
    [(''Bato Dela Rosa'', ''Bato dela Rosa''),
     (''Panfilo Lacson'', ''Ping Lacson''),
     (''Francis Tolentino'', ''Francis Tolentino''),
     (''Phillip Ipe Salvador'', ''Phillip Salvador''),
     (''Willie Revillame'', ''Willie Revillame''),
     (''Ben Tulfo'', ''Ben Tulfo''),
     (''Colonel Bosita'', ''Bonifacio Bosita''),
     (''Atty. Vic Rodriguez'', ''Vic Rodriguez''),
     (''Rodante Marcoleta'', ''Rodante Marcoleta''),
     (''Kiko Pangilinan'', ''Francis Kiko Pangilinan'')]"

text \<open>
  The first loop of \<open>standardize_name\<close>: the value of the first key that equals the name
  when both are lower-cased, if there is one.
\<close>

fun lookup_specific :: "(string \<times> string) list \<Rightarrow> string \<Rightarrow> string option" where
  "lookup_specific [] name = None"
| "lookup_specific ((key, val) # rest) name =
     (if lower key = lower name then Some val else lookup_specific rest name)"

text \<open>\<open>' '.join([part.strip() for part in parts[1:] + [parts[0]]])\<close>, when a comma is there.\<close>

definition invert_commas :: "string \<Rightarrow> string" where
  "invert_commas name =
     (if CHR '','' \<in> set name then
        (let parts = split_on CHR '','' name in
         if 2 \<le> length parts then join '' '' (map strip (tl parts @ [hd parts])) else name)
      else name)"

definition remove_nicknames :: "string \<Rightarrow> string" where
  "remove_nicknames name =
     sub_word ''Bitag'' (sub_word ''Wil'' (sub_word ''Tol'' (sub_word ''Pacman'' name)))"

text \<open>
  The second loop: every key is tested against the current value of \<open>name\<close>, which a
  match overwrites.
\<close>

fun apply_mapping :: "(string \<times> string) list \<Rightarrow> string \<Rightarrow> string" where
  "apply_mapping [] name = name"
| "apply_mapping ((key, val) # rest) name =
     apply_mapping rest (if contains (lower key) (lower name) then val else name)"

definition standardize_name :: "string \<Rightarrow> string" where
  "standardize_name raw =
     (let name = title raw in
      case lookup_specific specific_cases name of
        Some val \<Rightarrow> val
      | None \<Rightarrow>
          strip (collapse_spaces (apply_mapping name_mapping
            (remove_nicknames (invert_commas name)))))"

text \<open>The canonical names of the two tables, each listed once.\<close>

definition canonical_names :: "string list" where
  "canonical_names = remdups (map snd specific_cases @ map snd name_mapping)"

section \<open>The name-mapping table (\<open>main\<close>)\<close>



section \<open>Converting the poll columns (\<open>read_opinion_polls\<close>)\<close>













section \<open>The accuracy scorer (\<open>app.py\<close>)\<close>

text \<open>
  The frames \<open>actual_results\<close> and \<open>opinion_polls\<close> as the scorer reads them. A poll
  score is \<open>None\<close> where the frame holds \<open>NaN\<close>. Vote counts are Python integers;
  scores and accuracies are exact reals, binary floating-point rounding is not modelled.
\<close>

record result_row =
  result_candidate :: string
  result_standardized :: string
  result_votes :: int

record poll_row =
  poll_candidate :: string
  poll_party :: string
  poll_standardized :: string
  poll_scores :: "string \<Rightarrow> real option"

record polls_frame =
  columns :: "string list"
  rows :: "poll_row list"

record scorecard =
  opinion_polling :: string
  correct_predictions :: nat
  accuracy :: real
  predicted_top12 :: "string list"

datatype py_error = ZeroDivisionError

text \<open>\<open>actual_results.head(12)['Standardized Name'].tolist()\<close>\<close>

definition actual_top12 :: "result_row list \<Rightarrow> string list" where
  "actual_top12 actual_results = map result_standardized (take 12 actual_results)"

text \<open>\<open>opinion_polls[['Standardized Name', poll_column]]\<close>\<close>

definition select_poll :: "polls_frame \<Rightarrow> string \<Rightarrow> (string \<times> real option) list" where
  "select_poll opinion_polls poll_column =
     map (\<lambda>r. (poll_standardized r, poll_scores r poll_column)) (rows opinion_polls)"

text \<open>\<open>poll_df.dropna(subset=[poll_column])\<close>\<close>

fun dropna :: "(string \<times> real option) list \<Rightarrow> (string \<times> real) list" where
  "dropna [] = []"
| "dropna ((name, None) # rest) = dropna rest"
| "dropna ((name, Some s) # rest) = (name, s) # dropna rest"


text \<open>Two sorts that keep the promise: a stable one, and one that reverses ties.\<close>

definition stable_sort_desc :: "(string \<times> real) list \<Rightarrow> (string \<times> real) list" where
  "stable_sort_desc xs = sort_key (\<lambda>p. - snd p) xs"


definition get_top12_from_poll ::
    "((string \<times> real) list \<Rightarrow> (string \<times> real) list) \<Rightarrow> polls_frame \<Rightarrow> string \<Rightarrow> string list" where
  "get_top12_from_poll srt opinion_polls poll_column =
     map fst (take 12 (srt (dropna (select_poll opinion_polls poll_column))))"

definition poll_columns :: "polls_frame \<Rightarrow> string list" where
  "poll_columns opinion_polls =
     filter (\<lambda>col. col \<notin> set [''Candidate'', ''Party'', ''Standardized Name''])
       (columns opinion_polls)"

text \<open>Python's \<open>/\<close> raises \<open>ZeroDivisionError\<close> on a zero divisor.\<close>

definition truediv :: "real \<Rightarrow> real \<Rightarrow> py_error + real" where
  "truediv a b = (if b = 0 then Inl ZeroDivisionError else Inr (a / b))"

text \<open>The body of the loop of \<open>generate_comparison_results\<close>.\<close>

definition score_poll ::
    "((string \<times> real) list \<Rightarrow> (string \<times> real) list) \<Rightarrow> polls_frame \<Rightarrow> string list
       \<Rightarrow> string \<Rightarrow> py_error + scorecard" where
  "score_poll srt opinion_polls actual poll_column =
     (let poll_top12 = get_top12_from_poll srt opinion_polls poll_column;
          correct_count = length (filter (\<lambda>candidate. candidate \<in> set actual) poll_top12)
      in case truediv (real correct_count) 12 of
           Inl e \<Rightarrow> Inl e
         | Inr q \<Rightarrow>
             Inr \<lparr>opinion_polling = poll_column,
                  correct_predictions = correct_count,
                  accuracy = q * 100,
                  predicted_top12 = poll_top12\<rparr>)"

text \<open>The loop: one scorecard per poll column, in order; an exception ends it.\<close>

fun collect :: "('a \<Rightarrow> py_error + 'b) \<Rightarrow> 'a list \<Rightarrow> py_error + 'b list" where
  "collect f [] = Inr []"
| "collect f (x # xs) =
     (case f x of
        Inl e \<Rightarrow> Inl e
      | Inr y \<Rightarrow> (case collect f xs of Inl e \<Rightarrow> Inl e | Inr ys \<Rightarrow> Inr (y # ys)))"

definition generate_comparison_results ::
    "((string \<times> real) list \<Rightarrow> (string \<times> real) list) \<Rightarrow> polls_frame \<Rightarrow> result_row list
       \<Rightarrow> py_error + scorecard list" where
  "generate_comparison_results srt opinion_polls actual_results =
     collect (score_poll srt opinion_polls (actual_top12 actual_results))
       (poll_columns opinion_polls)"

section \<open>The scorer as the specification words it\<close>

text \<open>
  These definitions follow the specification, not the code: they take \<open>top_n\<close> as an
  argument and sort with a stable sort. The theorems compare the code with them.
\<close>

definition spec_actualTopN :: "nat \<Rightarrow> result_row list \<Rightarrow> string list" where
  "spec_actualTopN top_n official =
     map result_standardized (take top_n (sort_key (\<lambda>r. - result_votes r) official))"




section \<open>Derived forms and example data\<close>

text \<open>
  The scorecard that one pass of the loop builds when the division succeeds, which it
  always does (lemma \<open>score_poll_Inr\<close> below).
\<close>

definition scorecard_of ::
    "((string \<times> real) list \<Rightarrow> (string \<times> real) list) \<Rightarrow> polls_frame \<Rightarrow> string list
       \<Rightarrow> string \<Rightarrow> scorecard" where
  "scorecard_of srt opinion_polls actual poll_column =
     \<lparr>opinion_polling = poll_column,
      correct_predictions =
        length (filter (\<lambda>candidate. candidate \<in> set actual)
                  (get_top12_from_poll srt opinion_polls poll_column)),
      accuracy =
        real (length (filter (\<lambda>candidate. candidate \<in> set actual)
                        (get_top12_from_poll srt opinion_polls poll_column))) / 12 * 100,
      predicted_top12 = get_top12_from_poll srt opinion_polls poll_column\<rparr>"

text \<open>
  A poll frame with two instruments: \<open>SWS\<close> scores two candidates equally, \<open>OCTA\<close>
  scores nobody. The official results rank one of the two candidates.
\<close>

definition example_polls :: polls_frame where
  "example_polls =
     \<lparr>columns = [''Candidate'', ''Party'', ''SWS'', ''OCTA'', ''Standardized Name''],
      rows =
        [\<lparr>poll_candidate = ''Go, Bong Go'', poll_party = ''PDP'',
          poll_standardized = ''Bong Go'', poll_scores = [''SWS'' \<mapsto> 5]\<rparr>,
         \<lparr>poll_candidate = ''Tulfo, Ben Bitag'', poll_party = ''IND'',
          poll_standardized = ''Ben Tulfo'', poll_scores = [''SWS'' \<mapsto> 5]\<rparr>]\<rparr>"

definition example_results :: "result_row list" where
  "example_results =
     [\<lparr>result_candidate = ''GO, BONG GO'', result_standardized = ''Bong Go'',
       result_votes = 20\<rparr>,
      \<lparr>result_candidate = ''AQUINO, BAM'', result_standardized = ''Bam Aquino'',
       result_votes = 10\<rparr>]"

definition example_sws_card :: scorecard where
  "example_sws_card =
     \<lparr>opinion_polling = ''SWS'', correct_predictions = 1, accuracy = 25 / 3,
      predicted_top12 = [''Bong Go'', ''Ben Tulfo'']\<rparr>"

definition example_octa_card :: scorecard where
  "example_octa_card =
     \<lparr>opinion_polling = ''OCTA'', correct_predictions = 0, accuracy = 0,
      predicted_top12 = []\<rparr>"

text \<open>Official results whose rows are not in the order of their votes.\<close>

definition unranked_results :: "result_row list" where
  "unranked_results =
     [\<lparr>result_candidate = ''AQUINO, BAM'', result_standardized = ''Bam Aquino'',
       result_votes = 10\<rparr>,
      \<lparr>result_candidate = ''GO, BONG GO'', result_standardized = ''Bong Go'',
       result_votes = 20\<rparr>]"




section \<open>Theorems: the name standardizer\<close>

lemma lookup_specific_first:
  "distinct (map (\<lambda>kv. lower (fst kv)) cases) \<Longrightarrow> (key, val) \<in> set cases \<Longrightarrow>
   lower key = lower name \<Longrightarrow> lookup_specific cases name = Some val"
proof (induction cases)
  case Nil
  then show ?case by simp
next
  case (Cons kv cases)
  obtain k v where kv: "kv = (k, v)" by (cases kv)
  show ?case
  proof (cases "lower k = lower name")
    case True
    have "(key, val) = (k, v)"
    proof (rule ccontr)
      assume "(key, val) \<noteq> (k, v)"
      with Cons.prems(2) kv have "(key, val) \<in> set cases" by auto
      then have "lower key \<in> set (map (\<lambda>kv. lower (fst kv)) cases)" by force
      with Cons.prems(1) kv True Cons.prems(3) show False by simp
    qed
    with kv True show ?thesis by simp
  next
    case False
    with Cons.prems(2,3) kv have "(key, val) \<in> set cases" by auto
    with Cons kv False show ?thesis by simp
  qed
qed

lemma lookup_specific_in_values:
  "lookup_specific cases name = Some val \<Longrightarrow> val \<in> set (map snd cases)"
  by (induction cases name rule: lookup_specific.induct) (auto split: if_splits)

text \<open>No two keys of the override table agree when lower-cased.\<close>

lemma specific_cases_keys_distinct:
  "distinct (map (\<lambda>kv. lower (fst kv)) specific_cases)"
  by code_simp

lemma standardize_name_override:
  "lookup_specific specific_cases (title raw) = Some val \<Longrightarrow> standardize_name raw = val"
  by (simp add: standardize_name_def)

text \<open>
  Left to the later rules alone, \<open>go, bong go\<close> would come out as \<open>Bong Go Go\<close>: the
  override is what makes it \<open>Bong Go\<close>.
\<close>

lemma later_rules_on_go_bong_go:
  "strip (collapse_spaces (apply_mapping name_mapping
     (remove_nicknames (invert_commas (title ''go, bong go''))))) = ''Bong Go Go''"
  by code_simp

text \<open>
  Claim C4. If the title-cased input equals a key of the override table when both are
  lower-cased, \<open>standardize_name\<close> returns the value of that key and none of the later
  rules (comma inversion, nickname removal, substring correction) is applied; in
  particular \<open>go, bong go\<close> is standardized to \<open>Bong Go\<close>.
\<close>

theorem override_table_precedence:
  "(key, val) \<in> set specific_cases \<Longrightarrow> lower (title raw) = lower key \<Longrightarrow>
   standardize_name raw = val \<and> standardize_name ''go, bong go'' = ''Bong Go''"
proof -
  assume a: "(key, val) \<in> set specific_cases" and b: "lower (title raw) = lower key"
  have "lookup_specific specific_cases (title raw) = Some val"
    using lookup_specific_first [OF specific_cases_keys_distinct a] b by simp
  then have "standardize_name raw = val" by (rule standardize_name_override)
  moreover have "standardize_name ''go, bong go'' = ''Bong Go''" by code_simp
  ultimately show ?thesis by simp
qed

theorem override_table_precedence_witness:
  "(''Tulfo, Ben Bitag'', ''Ben Tulfo'') \<in> set specific_cases
   \<and> lower (title ''TULFO, BEN BITAG'') = lower ''Tulfo, Ben Bitag''
   \<and> standardize_name ''TULFO, BEN BITAG'' = ''Ben Tulfo''"
proof -
  have a: "(''Tulfo, Ben Bitag'', ''Ben Tulfo'') \<in> set specific_cases"
    by (simp add: specific_cases_def)
  have b: "lower (title ''TULFO, BEN BITAG'') = lower ''Tulfo, Ben Bitag''"
    by code_simp
  show ?thesis using a b override_table_precedence [OF a b] by simp
qed


lemma canonical_names_normal: "list_all (\<lambda>v. strip (collapse_spaces v) = v) canonical_names"
  by code_simp

lemma set_canonical_names:
  "set canonical_names = snd ` set specific_cases \<union> snd ` set name_mapping"
  by (simp add: canonical_names_def)

lemma apply_mapping_result:
  "apply_mapping m name = name \<or> apply_mapping m name \<in> snd ` set m"
proof (induction m name rule: apply_mapping.induct)
  case (1 name)
  show ?case by simp
next
  case (2 key val rest name)
  from "2.IH" show ?case by (cases "contains (lower key) (lower name)") force+
qed

lemma resolved_by_tables_canonical:
  assumes "lookup_specific specific_cases (title raw) \<noteq> None
           \<or> apply_mapping name_mapping (remove_nicknames (invert_commas (title raw)))
               \<noteq> remove_nicknames (invert_commas (title raw))"
  shows "standardize_name raw \<in> set canonical_names"
proof (cases "lookup_specific specific_cases (title raw)")
  case (Some val)
  then have "val \<in> set (map snd specific_cases)" by (rule lookup_specific_in_values)
  moreover from Some have "standardize_name raw = val" by (rule standardize_name_override)
  ultimately show ?thesis by (simp add: set_canonical_names)
next
  case None
  let ?n = "remove_nicknames (invert_commas (title raw))"
  from None assms have "apply_mapping name_mapping ?n \<noteq> ?n" by simp
  with apply_mapping_result [of name_mapping ?n]
  have v: "apply_mapping name_mapping ?n \<in> set canonical_names"
    by (simp add: set_canonical_names)
  with canonical_names_normal
  have "strip (collapse_spaces (apply_mapping name_mapping ?n)) = apply_mapping name_mapping ?n"
    by (simp add: list_all_iff)
  with None v show ?thesis by (simp add: standardize_name_def)
qed




section \<open>Theorems: the name-mapping table\<close>








section \<open>Theorems: converting the poll columns\<close>









section \<open>Theorems: the accuracy scorer\<close>

subsection \<open>The loop never raises\<close>

lemma collect_Inr:
  "(\<And>x. x \<in> set xs \<Longrightarrow> f x = Inr (g x)) \<Longrightarrow> collect f xs = Inr (map g xs)"
  by (induction xs) auto

lemma score_poll_Inr:
  "score_poll srt opinion_polls actual poll_column
     = Inr (scorecard_of srt opinion_polls actual poll_column)"
  by (simp add: score_poll_def scorecard_of_def truediv_def Let_def)

lemma generate_comparison_results_Inr:
  "generate_comparison_results srt opinion_polls actual_results
     = Inr (map (scorecard_of srt opinion_polls (actual_top12 actual_results))
              (poll_columns opinion_polls))"
  unfolding generate_comparison_results_def
  by (rule collect_Inr) (rule score_poll_Inr)

lemma length_get_top12: "length (get_top12_from_poll srt df col) \<le> 12"
  by (simp add: get_top12_from_poll_def)

subsection \<open>Sorting\<close>



text \<open>\<open>stable_sort_desc\<close> keeps rows with equal scores in their input order.\<close>

lemma stable_sort_desc_stable:
  "filter (\<lambda>p. snd p = v) (stable_sort_desc xs) = filter (\<lambda>p. snd p = v) xs"
  using sort_key_stable [of "\<lambda>p. - snd p" "- v" xs] by (simp add: stable_sort_desc_def)

lemma spec_sort_stable:
  "filter (\<lambda>r. result_votes r = v) (sort_key (\<lambda>r. - result_votes r) official)
     = filter (\<lambda>r. result_votes r = v) official"
  using sort_key_stable [of "\<lambda>r. - result_votes r" "- v" official] by simp






subsection \<open>The rows a poll column scores\<close>





subsection \<open>The examples, evaluated\<close>

lemma example_present:
  "dropna (select_poll example_polls ''SWS'') = [(''Bong Go'', 5), (''Ben Tulfo'', 5)]"
  "dropna (select_poll example_polls ''OCTA'') = []"
  by (simp_all add: example_polls_def select_poll_def)

lemma example_columns: "poll_columns example_polls = [''SWS'', ''OCTA'']"
  by (simp add: example_polls_def poll_columns_def)

lemma example_scorecards:
  "generate_comparison_results stable_sort_desc example_polls example_results
     = Inr [example_sws_card, example_octa_card]"
  by (simp add: generate_comparison_results_Inr example_columns scorecard_of_def
      get_top12_from_poll_def example_present stable_sort_desc_def
      actual_top12_def example_results_def example_sws_card_def example_octa_card_def)

subsection \<open>The official top twelve\<close>

text \<open>
  Claim C1, as stated: \<open>actualTopN\<close> is the official results sorted by votes,
  descending and stable, cut to \<open>top_n\<close>. The code does not sort and has no \<open>top_n\<close>: it
  takes the first twelve rows of the frame in the order of the file. On two rows that are
  not in vote order the two differ.
\<close>

theorem actual_top12_keeps_file_order:
  "actual_top12 unranked_results = [''Bam Aquino'', ''Bong Go'']
   \<and> spec_actualTopN 12 unranked_results = [''Bong Go'', ''Bam Aquino'']"
  by (simp add: actual_top12_def spec_actualTopN_def unranked_results_def)

text \<open>
  Claim C1, amended. \<open>actual_top12\<close> is the canonical names of the first twelve official
  results in input order; when the input rows are already in descending order of votes
  (ties in any order) this is the official results sorted by votes, descending and
  stable, cut to twelve.
\<close>

theorem actual_top12_of_ranked:
  "sorted_wrt (\<lambda>a b. result_votes b \<le> result_votes a) actual_results \<Longrightarrow>
   actual_top12 actual_results = spec_actualTopN 12 actual_results"
proof -
  assume "sorted_wrt (\<lambda>a b. result_votes b \<le> result_votes a) actual_results"
  then have "sorted (map (\<lambda>r. - result_votes r) actual_results)" by (simp add: sorted_map)
  then have "sort_key (\<lambda>r. - result_votes r) actual_results = actual_results"
    by (rule sort_key_id_if_sorted)
  then show ?thesis by (simp add: actual_top12_def spec_actualTopN_def)
qed

theorem actual_top12_of_ranked_witness:
  "sorted_wrt (\<lambda>a b. result_votes b \<le> result_votes a) example_results
   \<and> actual_top12 example_results = spec_actualTopN 12 example_results
   \<and> actual_top12 example_results = [''Bong Go'', ''Bam Aquino'']"
proof -
  have s: "sorted_wrt (\<lambda>a b. result_votes b \<le> result_votes a) example_results"
    by (simp add: example_results_def)
  have a: "actual_top12 example_results = [''Bong Go'', ''Bam Aquino'']"
    by (simp add: actual_top12_def example_results_def)
  show ?thesis using s a actual_top12_of_ranked [OF s] by simp
qed

subsection \<open>The predicted top twelve\<close>




subsection \<open>The correct count\<close>




subsection \<open>The accuracy\<close>






subsection \<open>Bounds\<close>

text \<open>
  Claim C10. On every scorecard the scorer produces, the correct count is at least 0
  and at most the length of the predicted list, the predicted list has at most twelve
  names, and the accuracy lies between 0 and 100, however many candidates the poll
  scores.
\<close>

theorem scorecard_bounds:
  "generate_comparison_results srt opinion_polls actual_results = Inr cards \<Longrightarrow>
   sc \<in> set cards \<Longrightarrow>
   0 \<le> correct_predictions sc
   \<and> correct_predictions sc \<le> length (predicted_top12 sc)
   \<and> length (predicted_top12 sc) \<le> 12
   \<and> 0 \<le> accuracy sc \<and> accuracy sc \<le> 100"
proof -
  assume r: "generate_comparison_results srt opinion_polls actual_results = Inr cards"
    and m: "sc \<in> set cards"
  from r m obtain col where
    sc: "sc = scorecard_of srt opinion_polls (actual_top12 actual_results) col"
    by (auto simp: generate_comparison_results_Inr)
  let ?p = "get_top12_from_poll srt opinion_polls col"
  let ?c = "length (filter (\<lambda>candidate. candidate \<in> set (actual_top12 actual_results)) ?p)"
  have a: "?c \<le> length ?p" by (rule length_filter_le)
  have b: "length ?p \<le> 12" by (rule length_get_top12)
  from a b have c: "?c \<le> 12" by (rule order_trans)
  show ?thesis using a b c by (simp add: sc scorecard_of_def)
qed

theorem scorecard_bounds_witness:
  "generate_comparison_results stable_sort_desc example_polls example_results
     = Inr [example_sws_card, example_octa_card]
   \<and> example_sws_card \<in> set [example_sws_card, example_octa_card]
   \<and> correct_predictions example_sws_card \<le> length (predicted_top12 example_sws_card)
   \<and> length (predicted_top12 example_sws_card) \<le> 12
   \<and> 0 \<le> accuracy example_sws_card \<and> accuracy example_sws_card \<le> 100"
proof -
  have m: "example_sws_card \<in> set [example_sws_card, example_octa_card]" by simp
  show ?thesis using example_scorecards m scorecard_bounds [OF example_scorecards m] by simp
qed

end
